theory Spec2Isabelle
  imports Main "HOL-Library.Word"
begin

unbundle bit_operations_syntax

section \<open>Data model\<close>

text \<open>
  A Go byte slice is a list of 8-bit words; the nil slice and the empty slice are both
  \<open>[]\<close> (the source only ever takes \<open>len\<close> of them or hands them on).
\<close>

type_synonym bytes = "8 word list"

text \<open>
  A Go \<open>error\<close> value returned by a collaborator, and the three ways a function of the
  source stops without returning: \<open>os.Exit\<close>, \<open>log.Panic\<close> and the run-time panic of
  a nil pointer dereference.
\<close>

datatype go_error = GoError string

datatype abort = OsExit int | LogPanic go_error | NilPointerDereference

text \<open>
  Modelled from the spec: the declarations of TXInput, TXOutput, Transaction and Block
  are in files of the repository that are not under src/. The fields are the ones
  src/blockchain.go reads (\<open>tx.ID\<close>, \<open>tx.Vin\<close>, \<open>tx.Vout\<close>, \<open>in.Txid\<close>, \<open>in.Vout\<close>,
  \<open>out.Value\<close>, \<open>block.Transactions\<close>, \<open>block.PrevBlockHash\<close>, \<open>block.Hash\<close>) together
  with the unlocking and locking data, the timestamp and the nonce of the spec's data
  model. The field \<open>Vout\<close> of TXInput is called \<open>in_Vout\<close> here, since records share
  one name space. Go's \<open>int\<close> is a 64-bit signed integer: it is an \<open>int\<close> here, and
  the one addition of the source is wrapped explicitly (\<open>wrap64\<close>).
\<close>

record TXInput =
  Txid :: bytes
  in_Vout :: int
  ScriptSig :: string

record TXOutput =
  Value :: int
  ScriptPubKey :: string

record Transaction =
  ID :: bytes
  Vin :: "TXInput list"
  Vout :: "TXOutput list"

record Block =
  Timestamp :: int
  Transactions :: "Transaction list"
  PrevBlockHash :: bytes
  Hash :: bytes
  Nonce :: int

text \<open>
  The bucket \<open>blocks\<close> of the key-value store: a finite map from keys to values.
  \<open>Get\<close> returns nil for a missing key.
\<close>

type_synonym Bucket = "bytes \<rightharpoonup> bytes"

definition Get :: "Bucket \<Rightarrow> bytes \<Rightarrow> bytes" where
  "Get b k = (case b k of None \<Rightarrow> [] | Some v \<Rightarrow> v)"

text \<open>
  The functions of the repository and of the store that src/ calls but does not contain
  are parameters, collected in one record. \<open>NewBlock\<close> stands for the whole block
  construction (clock reading and proof-of-work search included). \<open>begin_err\<close>,
  \<open>put_err\<close> and \<open>commit_err\<close> say when the store refuses to begin a transaction
  (a writable one when the flag is set), to put a pair, or to commit; a put that is not
  refused updates the map.
\<close>

record env =
  NewBlock :: "bytes \<Rightarrow> Transaction list \<Rightarrow> Block"
  genesisBlock :: "Transaction \<Rightarrow> Block"
  NewCoinbaseTX :: "string \<Rightarrow> string \<Rightarrow> Transaction"
  SerializeBlock :: "Block \<Rightarrow> go_error + bytes"
  DeserializeBlock :: "bytes \<Rightarrow> go_error + Block"
  IsCoinbase :: "Transaction \<Rightarrow> bool"
  CanBeUnlockedWith :: "TXOutput \<Rightarrow> string \<Rightarrow> bool"
  CanUnlockOutputWith :: "TXInput \<Rightarrow> string \<Rightarrow> bool"
  open_err :: "go_error option"
  create_bucket_err :: "go_error option"
  begin_err :: "bool \<Rightarrow> Bucket \<Rightarrow> go_error option"
  put_err :: "Bucket \<Rightarrow> bytes \<Rightarrow> bytes \<Rightarrow> go_error option"
  commit_err :: "Bucket \<Rightarrow> Bucket \<Rightarrow> go_error option"

definition Put :: "env \<Rightarrow> Bucket \<Rightarrow> bytes \<Rightarrow> bytes \<Rightarrow> go_error + Bucket" where
  "Put e b k v = (case put_err e b k v of Some err \<Rightarrow> Inl err | None \<Rightarrow> Inr (b(k \<mapsto> v)))"

text \<open>
  \<open>db.View\<close> runs the callback on the bucket in a read-only transaction and returns the
  callback's error; if the transaction cannot begin, the callback is not run and the
  variables it would have assigned keep their initial values \<open>r0\<close>.
\<close>

definition View :: "env \<Rightarrow> Bucket \<Rightarrow> (Bucket \<Rightarrow> go_error option \<times> 'r) \<Rightarrow> 'r \<Rightarrow> go_error option \<times> 'r" where
  "View e d f r0 = (case begin_err e False d of Some err \<Rightarrow> (Some err, r0) | None \<Rightarrow> f d)"

text \<open>
  \<open>db.Update\<close> runs the callback in a read-write transaction. The callback yields its
  error, the bucket as it has written it, and the values it has assigned to captured
  variables. A nil error commits the written bucket; a non-nil error, or a failing
  commit, rolls the store back. Assignments to captured variables stay in either case.
\<close>

definition Update :: "env \<Rightarrow> Bucket \<Rightarrow> (Bucket \<Rightarrow> go_error option \<times> Bucket \<times> 'r) \<Rightarrow> 'r
    \<Rightarrow> go_error option \<times> Bucket \<times> 'r" where
  "Update e d f r0 =
     (case begin_err e True d of
        Some err \<Rightarrow> (Some err, d, r0)
      | None \<Rightarrow>
          (case f d of
             (Some err, d', r) \<Rightarrow> (Some err, d, r)
           | (None, d', r) \<Rightarrow>
               (case commit_err e d d' of
                  Some err \<Rightarrow> (Some err, d, r)
                | None \<Rightarrow> (None, d', r))))"

section \<open>src/constants.go\<close>

definition blocksBucket :: string where
  "blocksBucket = ''blocks''"

definition genesisCoinbaseData :: string where
  "genesisCoinbaseData =
     ''May 7 2019, 10:00pm, The Times'' @ [CHR 0x09] @ ''J'' @ [CHR 0xC3, CHR 0xBC] @
     ''rgen Klopp makes Liverpool believe they can do the impossible'' @ [CHR 0x09, CHR 0x09] @
     ''Matt Dickinson, Chief Sports Writer''"

text \<open>The two sentinel keys of the source: \<open>[]byte("1")\<close> and \<open>[]byte("l")\<close>.\<close>

definition key_1 :: bytes where
  "key_1 = [0x31]"

definition key_l :: bytes where
  "key_l = [0x6C]"

section \<open>src/blockchain.go: the ledger\<close>

record Blockchain =
  tip :: bytes
  db :: Bucket

text \<open>
  The database file: it does not exist, or it exists and holds the bucket \<open>blocks\<close>,
  or it exists without that bucket (\<open>File None\<close>, an empty file for one). In the
  last case \<open>tx.Bucket\<close> returns nil, and a \<open>Get\<close> on it is a nil pointer dereference.
  A blockchain object always has the bucket: CreateBlockchain creates it, and
  NewBlockchain does not return without it.
\<close>

datatype db_file = NoFile | File "Bucket option"

definition DBExists :: "db_file \<Rightarrow> bool" where
  "DBExists fs = (fs \<noteq> NoFile)"

text \<open>
  The callback of \<open>db.Update\<close> in MineBlock. It returns nil on every path; the second
  component is the bucket as written so far, the third the value of \<open>bc.tip\<close> and the
  message printed.
\<close>

definition MineBlock_update :: "env \<Rightarrow> Block \<Rightarrow> bytes \<Rightarrow> Bucket
    \<Rightarrow> go_error option \<times> Bucket \<times> (bytes \<times> string list)" where
  "MineBlock_update e newBlock tip0 b =
     (case SerializeBlock e newBlock of
        Inl err \<Rightarrow> (None, b, (tip0, [''Error serializing new block'']))
      | Inr block \<Rightarrow>
          (case Put e b (Hash newBlock) block of
             Inl err \<Rightarrow> (None, b, (tip0, [''Error updating bucket with new block'']))
           | Inr b1 \<Rightarrow>
               (case Put e b1 key_1 (Hash newBlock) of
                  Inl err \<Rightarrow> (None, b1, (tip0, [''Error serializing genesis block'']))
                | Inr b2 \<Rightarrow> (None, b2, (Hash newBlock, [])))))"

text \<open>
  MineBlock has no result in the source: the model returns the blockchain object as the
  call leaves it and the messages it has printed. The error of \<open>db.Update\<close> is assigned
  and never read.
\<close>

definition MineBlock_lastHash :: "env \<Rightarrow> Blockchain \<Rightarrow> go_error option \<times> bytes" where
  "MineBlock_lastHash e bc = View e (db bc) (\<lambda>b. (None, Get b key_1)) []"

definition MineBlock_newBlock :: "env \<Rightarrow> Blockchain \<Rightarrow> Transaction list \<Rightarrow> Block" where
  "MineBlock_newBlock e bc transactions = NewBlock e (snd (MineBlock_lastHash e bc)) transactions"

definition MineBlock :: "env \<Rightarrow> Blockchain \<Rightarrow> Transaction list \<Rightarrow> Blockchain \<times> string list" where
  "MineBlock e bc transactions =
     (let (err, lastHash) = MineBlock_lastHash e bc;
          out1 = (if err \<noteq> None then [''Error getting last block''] else []);
          newBlock = NewBlock e lastHash transactions;
          (err2, d', tip', out2) =
             Update e (db bc) (MineBlock_update e newBlock (tip bc)) (tip bc, [])
      in (\<lparr>tip = tip', db = d'\<rparr>, out1 @ out2))"

text \<open>
  The iterator shares the store of the blockchain. It holds the bucket as it is when
  Iterator is called: no function below writes to the store between that call and the
  last call of Next.
\<close>

record BlockchainIterator =
  currentHash :: bytes
  it_db :: Bucket

definition Iterator :: "Blockchain \<Rightarrow> BlockchainIterator" where
  "Iterator bc = \<lparr>currentHash = tip bc, it_db = db bc\<rparr>"

text \<open>
  Next: the callback leaves \<open>block\<close> nil when decoding fails, and so does a read
  transaction that cannot begin; the statement \<open>i.currentHash = block.PrevBlockHash\<close>
  after it then dereferences nil.
\<close>

definition Next_view :: "env \<Rightarrow> BlockchainIterator \<Rightarrow> Bucket \<Rightarrow> go_error option \<times> Block option" where
  "Next_view e i b =
     (case DeserializeBlock e (Get b (currentHash i)) of
        Inl err \<Rightarrow> (None, None)
      | Inr nblock \<Rightarrow> (None, Some nblock))"

definition Next :: "env \<Rightarrow> BlockchainIterator \<Rightarrow> abort + (Block \<times> BlockchainIterator)" where
  "Next e i =
     (case snd (View e (it_db i) (Next_view e i) None) of
        None \<Rightarrow> Inl NilPointerDereference
      | Some block \<Rightarrow> Inr (block, i\<lparr>currentHash := PrevBlockHash block\<rparr>))"

text \<open>
  The callback of \<open>db.Update\<close> in CreateBlockchain, on the empty file: every failure is
  a \<open>log.Panic\<close>.
\<close>

definition CreateBlockchain_update :: "env \<Rightarrow> string \<Rightarrow> abort + (Bucket \<times> bytes)" where
  "CreateBlockchain_update e address =
     (let cbtx = NewCoinbaseTX e address genesisCoinbaseData;
          genesis = genesisBlock e cbtx
      in case create_bucket_err e of
           Some err \<Rightarrow> Inl (LogPanic err)
         | None \<Rightarrow>
             (case SerializeBlock e genesis of
                Inl err \<Rightarrow> Inl (LogPanic err)
              | Inr ser \<Rightarrow>
                  (case Put e Map.empty (Hash genesis) ser of
                     Inl err \<Rightarrow> Inl (LogPanic err)
                   | Inr b1 \<Rightarrow>
                       (case Put e b1 key_l (Hash genesis) of
                          Inl err \<Rightarrow> Inl (LogPanic err)
                        | Inr b2 \<Rightarrow> Inr (b2, Hash genesis)))))"

definition CreateBlockchain :: "env \<Rightarrow> db_file \<Rightarrow> string \<Rightarrow> abort + Blockchain" where
  "CreateBlockchain e fs address =
     (if DBExists fs then Inl (OsExit 1)
      else case open_err e of
             Some err \<Rightarrow> Inl (LogPanic err)
           | None \<Rightarrow>
               (case begin_err e True Map.empty of
                  Some err \<Rightarrow> Inl (LogPanic err)
                | None \<Rightarrow>
                    (case CreateBlockchain_update e address of
                       Inl a \<Rightarrow> Inl a
                     | Inr (b, t) \<Rightarrow>
                         (case commit_err e Map.empty b of
                            Some err \<Rightarrow> Inl (LogPanic err)
                          | None \<Rightarrow> Inr \<lparr>tip = t, db = b\<rparr>))))"

text \<open>
  NewBlockchain returns nil when the file cannot be opened, and reads the tip under the
  key \<open>"1"\<close> otherwise. On a file without the bucket, the callback of \<open>db.Update\<close>
  calls \<open>Get\<close> on a nil bucket and panics. Its argument \<open>data\<close> is not used.
\<close>

definition NewBlockchain :: "env \<Rightarrow> db_file \<Rightarrow> bytes \<Rightarrow> abort + Blockchain option" where
  "NewBlockchain e fs data =
     (case fs of
        NoFile \<Rightarrow> Inl (OsExit 1)
      | File bucket \<Rightarrow>
          (case open_err e of
             Some err \<Rightarrow> Inr None
           | None \<Rightarrow>
               (case bucket of
                  None \<Rightarrow>
                    (case begin_err e True Map.empty of
                       Some err \<Rightarrow> Inl (LogPanic err)
                     | None \<Rightarrow> Inl NilPointerDereference)
                | Some d \<Rightarrow>
                    (case Update e d (\<lambda>b. (None, b, Get b key_1)) [] of
                       (Some err, d', t) \<Rightarrow> Inl (LogPanic err)
                     | (None, d', t) \<Rightarrow> Inr (Some \<lparr>tip = t, db = d'\<rparr>)))))"

section \<open>src/blockchain.go: unspent outputs\<close>

text \<open>\<open>hex.EncodeToString\<close> of Go's library: two lower-case digits for each byte.\<close>

definition hextable :: string where
  "hextable = ''0123456789abcdef''"

definition EncodeToString :: "bytes \<Rightarrow> string" where
  "EncodeToString src =
     concat (map (\<lambda>v. [hextable ! unat (drop_bit 4 v), hextable ! unat (v AND 0x0f)]) src)"

text \<open>
  A Go map from strings to slices of \<open>int\<close>; a missing key reads as the nil slice, and
  \<open>append\<close> to it starts a new slice.
\<close>

type_synonym index_map = "string \<rightharpoonup> int list"

definition lookup_slice :: "index_map \<Rightarrow> string \<Rightarrow> int list" where
  "lookup_slice m k = (case m k of None \<Rightarrow> [] | Some l \<Rightarrow> l)"

definition append_index :: "index_map \<Rightarrow> string \<Rightarrow> int \<Rightarrow> index_map" where
  "append_index m k i = m(k \<mapsto> lookup_slice m k @ [i])"

text \<open>The test "was the output spent?" at the head of the loop \<open>Outputs\<close>.\<close>

definition was_spent :: "index_map \<Rightarrow> string \<Rightarrow> int \<Rightarrow> bool" where
  "was_spent spentTXOs txID outIdx =
     (case spentTXOs txID of
        None \<Rightarrow> False
      | Some l \<Rightarrow> (\<exists>spentOut \<in> set l. spentOut = outIdx))"

text \<open>
  The loop \<open>Outputs\<close> over \<open>tx.Vout\<close>, from the output with index \<open>outIdx\<close> on: a spent
  output is skipped, and the transaction is appended for an output the address unlocks.
\<close>

fun scan_outputs :: "env \<Rightarrow> string \<Rightarrow> Transaction \<Rightarrow> index_map \<Rightarrow> string \<Rightarrow> int
    \<Rightarrow> TXOutput list \<Rightarrow> Transaction list \<Rightarrow> Transaction list" where
  "scan_outputs e address tx spentTXOs txID outIdx [] unspentTXs = unspentTXs"
| "scan_outputs e address tx spentTXOs txID outIdx (out # outs) unspentTXs =
     (if was_spent spentTXOs txID outIdx
      then scan_outputs e address tx spentTXOs txID (outIdx + 1) outs unspentTXs
      else if CanBeUnlockedWith e out address
      then scan_outputs e address tx spentTXOs txID (outIdx + 1) outs (unspentTXs @ [tx])
      else scan_outputs e address tx spentTXOs txID (outIdx + 1) outs unspentTXs)"

text \<open>The loop over \<open>tx.Vin\<close> of a transaction that is not a coinbase.\<close>

fun mark_inputs :: "env \<Rightarrow> string \<Rightarrow> TXInput list \<Rightarrow> index_map \<Rightarrow> index_map" where
  "mark_inputs e address [] spentTXOs = spentTXOs"
| "mark_inputs e address (i # ins) spentTXOs =
     mark_inputs e address ins
       (if CanUnlockOutputWith e i address
        then append_index spentTXOs (EncodeToString (Txid i)) (in_Vout i)
        else spentTXOs)"

text \<open>The body of the loop over \<open>block.Transactions\<close>, and that loop.\<close>

definition scan_tx :: "env \<Rightarrow> string \<Rightarrow> Transaction \<Rightarrow> Transaction list \<times> index_map
    \<Rightarrow> Transaction list \<times> index_map" where
  "scan_tx e address tx st =
     (let txID = EncodeToString (ID tx);
          unspentTXs = scan_outputs e address tx (snd st) txID 0 (Vout tx) (fst st);
          spentTXOs = (if IsCoinbase e tx = False
                       then mark_inputs e address (Vin tx) (snd st)
                       else snd st)
      in (unspentTXs, spentTXOs))"

fun scan_transactions :: "env \<Rightarrow> string \<Rightarrow> Transaction list \<Rightarrow> Transaction list \<times> index_map
    \<Rightarrow> Transaction list \<times> index_map" where
  "scan_transactions e address [] st = st"
| "scan_transactions e address (tx # txs) st =
     scan_transactions e address txs (scan_tx e address tx st)"

text \<open>
  The loop \<open>for { block := bci.Next(); ...; if len(block.PrevBlockHash) == 0 { break } }\<close>.
  Nothing in the source bounds it, so the model counts the iterations it may still make:
  \<open>None\<close> says that \<open>fuel\<close> iterations did not reach a block with an empty
  PrevBlockHash. The iterator is returned with the result: it holds the handle of the
  store the blockchain shares.
\<close>

fun FindUnspentTransactions_loop :: "nat \<Rightarrow> env \<Rightarrow> string \<Rightarrow> BlockchainIterator
    \<Rightarrow> Transaction list \<times> index_map \<Rightarrow> (abort + Transaction list \<times> BlockchainIterator) option" where
  "FindUnspentTransactions_loop 0 e address bci st = None"
| "FindUnspentTransactions_loop (Suc fuel) e address bci st =
     (case Next e bci of
        Inl a \<Rightarrow> Some (Inl a)
      | Inr (block, bci') \<Rightarrow>
          (let st' = scan_transactions e address (Transactions block) st
           in if length (PrevBlockHash block) = 0
              then Some (Inr (fst st', bci'))
              else FindUnspentTransactions_loop fuel e address bci' st'))"

text \<open>
  FindUnspentTransactions, FindUTXO and FindSpendableOutputs return their result together
  with the blockchain object as the call leaves it: \<open>bc.tip\<close> as it was, and the store
  as the iterator hands it back.
\<close>

definition FindUnspentTransactions :: "nat \<Rightarrow> env \<Rightarrow> Blockchain \<Rightarrow> string
    \<Rightarrow> (abort + Transaction list \<times> Blockchain) option" where
  "FindUnspentTransactions fuel e bc address =
     (case FindUnspentTransactions_loop fuel e address (Iterator bc) ([], Map.empty) of
        None \<Rightarrow> None
      | Some (Inl a) \<Rightarrow> Some (Inl a)
      | Some (Inr (unspentTXs, bci)) \<Rightarrow> Some (Inr (unspentTXs, bc\<lparr>db := it_db bci\<rparr>)))"

definition unlockable_outputs :: "env \<Rightarrow> string \<Rightarrow> Transaction \<Rightarrow> TXOutput list" where
  "unlockable_outputs e address tx = filter (\<lambda>out. CanBeUnlockedWith e out address) (Vout tx)"

definition FindUTXO :: "nat \<Rightarrow> env \<Rightarrow> Blockchain \<Rightarrow> string
    \<Rightarrow> (abort + TXOutput list \<times> Blockchain) option" where
  "FindUTXO fuel e bc address =
     (case FindUnspentTransactions fuel e bc address of
        None \<Rightarrow> None
      | Some (Inl a) \<Rightarrow> Some (Inl a)
      | Some (Inr (unspentTransactions, bc')) \<Rightarrow>
          Some (Inr (concat (map (unlockable_outputs e address) unspentTransactions), bc')))"

text \<open>Go's \<open>accumulated += out.Value\<close> on 64-bit signed integers.\<close>

definition wrap64 :: "int \<Rightarrow> int" where
  "wrap64 x = (x + 2 ^ 63) mod 2 ^ 64 - 2 ^ 63"

text \<open>
  The inner loop of FindSpendableOutputs, from the output with index \<open>outIdx\<close> on; the
  flag says that \<open>break Work\<close> was taken.
\<close>

fun spend_outputs :: "env \<Rightarrow> string \<Rightarrow> int \<Rightarrow> string \<Rightarrow> int \<Rightarrow> TXOutput list
    \<Rightarrow> int \<times> index_map \<Rightarrow> (int \<times> index_map) \<times> bool" where
  "spend_outputs e address amount txID outIdx [] st = (st, False)"
| "spend_outputs e address amount txID outIdx (out # outs) st =
     (if CanBeUnlockedWith e out address \<and> fst st < amount
      then (let accumulated = wrap64 (fst st + Value out);
                unspentOutputs = append_index (snd st) txID outIdx
            in if accumulated \<ge> amount
               then ((accumulated, unspentOutputs), True)
               else spend_outputs e address amount txID (outIdx + 1) outs
                      (accumulated, unspentOutputs))
      else spend_outputs e address amount txID (outIdx + 1) outs st)"

fun spend_txs :: "env \<Rightarrow> string \<Rightarrow> int \<Rightarrow> Transaction list \<Rightarrow> int \<times> index_map
    \<Rightarrow> int \<times> index_map" where
  "spend_txs e address amount [] st = st"
| "spend_txs e address amount (tx # txs) st =
     (case spend_outputs e address amount (EncodeToString (ID tx)) 0 (Vout tx) st of
        (st', True) \<Rightarrow> st'
      | (st', False) \<Rightarrow> spend_txs e address amount txs st')"

definition FindSpendableOutputs :: "nat \<Rightarrow> env \<Rightarrow> Blockchain \<Rightarrow> string \<Rightarrow> int
    \<Rightarrow> (abort + (int \<times> index_map) \<times> Blockchain) option" where
  "FindSpendableOutputs fuel e bc address amount =
     (case FindUnspentTransactions fuel e bc address of
        None \<Rightarrow> None
      | Some (Inl a) \<Rightarrow> Some (Inl a)
      | Some (Inr (unspentTXs, bc')) \<Rightarrow>
          Some (Inr (spend_txs e address amount unspentTXs (0, Map.empty), bc')))"

text \<open>
  Walking the chain the way the loop of FindUnspentTransactions does: the blocks that
  successive calls of Next yield, up to and including the first one with an empty
  PrevBlockHash.
\<close>

fun chain_blocks :: "nat \<Rightarrow> env \<Rightarrow> BlockchainIterator \<Rightarrow> (abort + Block list) option" where
  "chain_blocks 0 e bci = None"
| "chain_blocks (Suc fuel) e bci =
     (case Next e bci of
        Inl a \<Rightarrow> Some (Inl a)
      | Inr (block, bci') \<Rightarrow>
          if length (PrevBlockHash block) = 0 then Some (Inr [block])
          else (case chain_blocks fuel e bci' of
                  None \<Rightarrow> None
                | Some (Inl a) \<Rightarrow> Some (Inl a)
                | Some (Inr blocks) \<Rightarrow> Some (Inr (block # blocks))))"

text \<open>
  The outputs of a transaction that the scan counts as unspent and unlockable by the
  address, given the outputs marked as spent so far: the ones for which the loop
  \<open>Outputs\<close> reaches its \<open>append\<close>.
\<close>

definition unspent_outputs :: "env \<Rightarrow> string \<Rightarrow> index_map \<Rightarrow> Transaction \<Rightarrow> (nat \<times> TXOutput) list" where
  "unspent_outputs e address spentTXOs tx =
     filter (\<lambda>(outIdx, out). \<not> was_spent spentTXOs (EncodeToString (ID tx)) (int outIdx)
                               \<and> CanBeUnlockedWith e out address)
       (enumerate 0 (Vout tx))"

section \<open>src/gcd/servers.go: mineTxs\<close>












section \<open>A small ledger for the examples\<close>

text \<open>
  A concrete instance of the parameters: 32-byte hashes made of a length and a count, a
  codec that knows three blocks, locking by equality of the address, and a store that
  refuses nothing.
\<close>

definition demo_cb :: "string \<Rightarrow> string \<Rightarrow> Transaction" where
  "demo_cb to data =
     \<lparr>ID = 0xCB # map (\<lambda>c. of_nat (of_char c)) to,
      Vin = [\<lparr>Txid = [], in_Vout = - 1, ScriptSig = data\<rparr>],
      Vout = [\<lparr>Value = 10, ScriptPubKey = to\<rparr>]\<rparr>"

definition demo_NewBlock :: "bytes \<Rightarrow> Transaction list \<Rightarrow> Block" where
  "demo_NewBlock prev txs =
     \<lparr>Timestamp = 0, Transactions = txs, PrevBlockHash = prev,
      Hash = replicate 30 0 @ [of_nat (length prev), of_nat (length txs)], Nonce = 0\<rparr>"

definition demo_genesis :: Block where
  "demo_genesis = demo_NewBlock [] [demo_cb ''A'' genesisCoinbaseData]"

text \<open>A transaction that spends the genesis reward of A into two outputs locked by A.\<close>

definition demo_tx1 :: Transaction where
  "demo_tx1 =
     \<lparr>ID = [0x01],
      Vin = [\<lparr>Txid = ID (demo_cb ''A'' genesisCoinbaseData), in_Vout = 0, ScriptSig = ''A''\<rparr>],
      Vout = [\<lparr>Value = 4, ScriptPubKey = ''A''\<rparr>, \<lparr>Value = 6, ScriptPubKey = ''A''\<rparr>]\<rparr>"

definition demo_txs :: "Transaction list" where
  "demo_txs = [demo_tx1, demo_cb ''M'' []]"

text \<open>The block MineBlock builds on a fresh ledger, and the block linked to the genesis block.\<close>

definition demo_mined :: Block where
  "demo_mined = demo_NewBlock [] demo_txs"

definition demo_linked :: Block where
  "demo_linked = demo_NewBlock (Hash demo_genesis) demo_txs"

definition demo_ser :: "Block \<Rightarrow> bytes" where
  "demo_ser b = 0xB1 # Hash b"

definition demo_DeserializeBlock :: "bytes \<Rightarrow> go_error + Block" where
  "demo_DeserializeBlock bs =
     (case find (\<lambda>b. demo_ser b = bs) [demo_genesis, demo_mined, demo_linked] of
        None \<Rightarrow> Inl (GoError ''EOF'')
      | Some b \<Rightarrow> Inr b)"

definition demo_env :: env where
  "demo_env =
     \<lparr>NewBlock = demo_NewBlock,
      genesisBlock = (\<lambda>cbtx. demo_NewBlock [] [cbtx]),
      NewCoinbaseTX = demo_cb,
      SerializeBlock = (\<lambda>b. Inr (demo_ser b)),
      DeserializeBlock = demo_DeserializeBlock,
      IsCoinbase = (\<lambda>tx. length (Vin tx) = 1 \<and> length (Txid (hd (Vin tx))) = 0
                            \<and> in_Vout (hd (Vin tx)) = - 1),
      CanBeUnlockedWith = (\<lambda>out unlockingData. ScriptPubKey out = unlockingData),
      CanUnlockOutputWith = (\<lambda>i unlockingData. ScriptSig i = unlockingData),
      open_err = None,
      create_bucket_err = None,
      begin_err = (\<lambda>writable b. None),
      put_err = (\<lambda>b k v. None),
      commit_err = (\<lambda>b b'. None)\<rparr>"

text \<open>The same instance with a store that refuses to write the key \<open>"1"\<close>.\<close>

definition demo_env_tip_put_fails :: env where
  "demo_env_tip_put_fails =
     demo_env\<lparr>put_err := (\<lambda>b k v. if k = key_1 then Some (GoError ''put'') else None)\<rparr>"

text \<open>The ledger CreateBlockchain makes, and the one after a call of MineBlock on it.\<close>

definition demo_bc0 :: Blockchain where
  "demo_bc0 =
     \<lparr>tip = Hash demo_genesis,
      db = [Hash demo_genesis \<mapsto> demo_ser demo_genesis, key_l \<mapsto> Hash demo_genesis]\<rparr>"

definition demo_bc1 :: Blockchain where
  "demo_bc1 =
     \<lparr>tip = Hash demo_mined,
      db = [Hash demo_genesis \<mapsto> demo_ser demo_genesis, key_l \<mapsto> Hash demo_genesis,
            Hash demo_mined \<mapsto> demo_ser demo_mined, key_1 \<mapsto> Hash demo_mined]\<rparr>"

text \<open>A ledger of two linked blocks, with the tip pointer under the key \<open>"1"\<close>.\<close>

definition demo_chain :: Blockchain where
  "demo_chain =
     \<lparr>tip = Hash demo_linked,
      db = [Hash demo_genesis \<mapsto> demo_ser demo_genesis,
            Hash demo_linked \<mapsto> demo_ser demo_linked, key_1 \<mapsto> Hash demo_linked]\<rparr>"

text \<open>
  A node for mineTxs: its store is the list of the transaction identities that can be
  spent, a transaction verifies when all its inputs refer to one of them, and the mempool
  holds one transaction that verifies and one that does not.
\<close>





section \<open>Evaluating the examples\<close>

lemmas demo_defs =
  demo_env_def demo_NewBlock_def demo_cb_def demo_genesis_def demo_bc0_def demo_bc1_def
  demo_mined_def demo_linked_def demo_ser_def demo_DeserializeBlock_def demo_txs_def
  demo_tx1_def demo_chain_def demo_env_tip_put_fails_def

lemma demo_CreateBlockchain: "CreateBlockchain demo_env NoFile ''A'' = Inr demo_bc0"
  by (simp add: CreateBlockchain_def CreateBlockchain_update_def DBExists_def Put_def
      demo_defs Let_def)

section \<open>The tip pointer and its two keys\<close>

lemma CreateBlockchain_result:
  assumes "CreateBlockchain e NoFile address = Inr bc"
  shows "\<exists>ser. SerializeBlock e (genesisBlock e (NewCoinbaseTX e address genesisCoinbaseData)) = Inr ser
     \<and> bc = \<lparr>tip = Hash (genesisBlock e (NewCoinbaseTX e address genesisCoinbaseData)),
             db = [Hash (genesisBlock e (NewCoinbaseTX e address genesisCoinbaseData)) \<mapsto> ser,
                   key_l \<mapsto> Hash (genesisBlock e (NewCoinbaseTX e address genesisCoinbaseData))]\<rparr>"
  using assms
  by (auto simp: CreateBlockchain_def CreateBlockchain_update_def DBExists_def Put_def Let_def
      split: option.splits sum.splits if_splits)

lemma MineBlock_unfold:
  "MineBlock e bc transactions =
     (case Update e (db bc) (MineBlock_update e (MineBlock_newBlock e bc transactions) (tip bc)) (tip bc, []) of
        (err2, d', tip', out2) \<Rightarrow>
          (\<lparr>tip = tip', db = d'\<rparr>,
           (if fst (MineBlock_lastHash e bc) \<noteq> None then [''Error getting last block''] else []) @ out2))"
  by (simp add: MineBlock_def MineBlock_newBlock_def Let_def split: prod.splits)

lemma MineBlock_lastHash_ok:
  "begin_err e False (db bc) = None \<Longrightarrow> MineBlock_lastHash e bc = (None, Get (db bc) key_1)"
  by (simp add: MineBlock_lastHash_def View_def)

lemma NewBlockchain_reads_key_1:
  assumes "open_err e = None" "begin_err e True d = None" "commit_err e d d = None"
  shows "NewBlockchain e (File (Some d)) data = Inr (Some \<lparr>tip = Get d key_1, db = d\<rparr>)"
  using assms by (simp add: NewBlockchain_def Update_def)

lemma NewBlockchain_without_bucket: "NewBlockchain e (File None) data \<noteq> Inr (Some bc)"
  by (simp add: NewBlockchain_def split: option.splits)

lemma MineBlock_on_store:
  assumes key: "d key_1 = Some v"
      and view: "begin_err e False d = None"
      and rw: "begin_err e True d = None"
      and ser: "SerializeBlock e (NewBlock e v transactions) = Inr ser"
      and put1: "put_err e d (Hash (NewBlock e v transactions)) ser = None"
      and put2: "put_err e (d(Hash (NewBlock e v transactions) \<mapsto> ser)) key_1
                   (Hash (NewBlock e v transactions)) = None"
      and commit: "commit_err e d (d(Hash (NewBlock e v transactions) \<mapsto> ser,
                   key_1 \<mapsto> Hash (NewBlock e v transactions))) = None"
  shows "MineBlock e \<lparr>tip = t, db = d\<rparr> transactions =
           (\<lparr>tip = Hash (NewBlock e v transactions),
             db = d(Hash (NewBlock e v transactions) \<mapsto> ser,
                    key_1 \<mapsto> Hash (NewBlock e v transactions))\<rparr>, [])"
proof -
  let ?bc = "\<lparr>tip = t, db = d\<rparr>"
  let ?nb = "NewBlock e v transactions"
  have last: "MineBlock_lastHash e ?bc = (None, v)"
    using MineBlock_lastHash_ok [of e ?bc] view key by (simp add: Get_def)
  then have nb: "MineBlock_newBlock e ?bc transactions = ?nb"
    by (simp add: MineBlock_newBlock_def)
  have upd: "MineBlock_update e ?nb t d = (None, d(Hash ?nb \<mapsto> ser, key_1 \<mapsto> Hash ?nb), Hash ?nb, [])"
    by (simp add: MineBlock_update_def ser Put_def put1 put2)
  show ?thesis
    unfolding MineBlock_unfold nb
    by (simp add: Update_def rw upd commit last)
qed

text \<open>
  C1. CreateBlockchain stores the hash of the genesis block under the key \<open>"l"\<close> and
  makes it \<open>bc.tip\<close>, and stores nothing under \<open>"1"\<close> (hashes have 32 bytes).
  MineBlock and NewBlockchain read the pointer under the key \<open>"1"\<close>: on any store
  \<open>d\<close> that holds a value \<open>v\<close> under \<open>"1"\<close>, whatever it holds elsewhere and whatever
  \<open>bc.tip\<close> is, MineBlock reads \<open>v\<close>, builds and stores the block
  \<open>NewBlock v transactions\<close> and makes its hash the tip, and NewBlockchain makes \<open>v\<close>
  the tip (where the store begins their transactions and refuses nothing). So on the
  ledger CreateBlockchain returns, both read nil, which is not the tip written at
  creation.
\<close>

theorem tip_written_under_l_read_under_1:
  assumes create: "CreateBlockchain e NoFile address = Inr bc"
      and digest: "length (tip bc) = 32"
  shows "tip bc = Hash (genesisBlock e (NewCoinbaseTX e address genesisCoinbaseData))
       \<and> db bc key_l = Some (tip bc)
       \<and> db bc key_1 = None
       \<and> (begin_err e False d = None \<and> d key_1 = Some v \<longrightarrow>
             MineBlock_lastHash e \<lparr>tip = t, db = d\<rparr> = (None, v)
             \<and> MineBlock_newBlock e \<lparr>tip = t, db = d\<rparr> transactions = NewBlock e v transactions)
       \<and> (d key_1 = Some v \<and> begin_err e False d = None \<and> begin_err e True d = None
            \<and> SerializeBlock e (NewBlock e v transactions) = Inr ser
            \<and> put_err e d (Hash (NewBlock e v transactions)) ser = None
            \<and> put_err e (d(Hash (NewBlock e v transactions) \<mapsto> ser)) key_1
                 (Hash (NewBlock e v transactions)) = None
            \<and> commit_err e d (d(Hash (NewBlock e v transactions) \<mapsto> ser,
                 key_1 \<mapsto> Hash (NewBlock e v transactions))) = None \<longrightarrow>
             MineBlock e \<lparr>tip = t, db = d\<rparr> transactions =
               (\<lparr>tip = Hash (NewBlock e v transactions),
                 db = d(Hash (NewBlock e v transactions) \<mapsto> ser,
                        key_1 \<mapsto> Hash (NewBlock e v transactions))\<rparr>, []))
       \<and> (open_err e = None \<and> begin_err e True d = None \<and> commit_err e d d = None
            \<and> d key_1 = Some v \<longrightarrow>
             NewBlockchain e (File (Some d)) data = Inr (Some \<lparr>tip = v, db = d\<rparr>))
       \<and> (begin_err e False (db bc) = None \<longrightarrow>
             MineBlock_lastHash e bc = (None, []) \<and> snd (MineBlock_lastHash e bc) \<noteq> tip bc)
       \<and> (open_err e = None \<and> begin_err e True (db bc) = None \<and> commit_err e (db bc) (db bc) = None
             \<longrightarrow> NewBlockchain e (File (Some (db bc))) data = Inr (Some \<lparr>tip = [], db = db bc\<rparr>)
               \<and> [] \<noteq> tip bc)"
proof -
  let ?g = "genesisBlock e (NewCoinbaseTX e address genesisCoinbaseData)"
  from CreateBlockchain_result [OF create] obtain ser0 where
    bc: "bc = \<lparr>tip = Hash ?g, db = [Hash ?g \<mapsto> ser0, key_l \<mapsto> Hash ?g]\<rparr>"
    by blast
  from digest bc have len: "length (Hash ?g) = 32" by simp
  then have ne: "Hash ?g \<noteq> key_1" "Hash ?g \<noteq> []" "key_l \<noteq> key_1"
    by (auto simp: key_1_def key_l_def)
  have tip: "tip bc = Hash ?g" and l: "db bc key_l = Some (tip bc)"
    using bc by simp_all
  have one: "db bc key_1 = None"
    using bc ne by simp
  then have get: "Get (db bc) key_1 = []"
    by (simp add: Get_def)
  have nil: "[] \<noteq> tip bc"
    using tip ne by simp
  have read: "MineBlock_lastHash e \<lparr>tip = t, db = d\<rparr> = (None, v)
      \<and> MineBlock_newBlock e \<lparr>tip = t, db = d\<rparr> transactions = NewBlock e v transactions"
    if "begin_err e False d = None" "d key_1 = Some v"
    using that MineBlock_lastHash_ok [of e "\<lparr>tip = t, db = d\<rparr>"]
    by (simp add: MineBlock_newBlock_def Get_def)
  note mine = MineBlock_on_store [of d v e transactions ser t]
  have opened: "NewBlockchain e (File (Some d)) data = Inr (Some \<lparr>tip = v, db = d\<rparr>)"
    if "open_err e = None" "begin_err e True d = None" "commit_err e d d = None" "d key_1 = Some v"
    using that NewBlockchain_reads_key_1 [of e d data] by (simp add: Get_def)
  have fresh_read: "MineBlock_lastHash e bc = (None, []) \<and> snd (MineBlock_lastHash e bc) \<noteq> tip bc"
    if "begin_err e False (db bc) = None"
    using that MineBlock_lastHash_ok [of e bc] get nil by simp
  have fresh_open: "NewBlockchain e (File (Some (db bc))) data = Inr (Some \<lparr>tip = [], db = db bc\<rparr>)"
    if "open_err e = None" "begin_err e True (db bc) = None" "commit_err e (db bc) (db bc) = None"
    using that NewBlockchain_reads_key_1 [of e "db bc" data] get by simp
  show ?thesis
    apply (intro conjI impI)
    subgoal by (rule tip)
    subgoal by (rule l)
    subgoal by (rule one)
    subgoal using read by blast
    subgoal using read by blast
    subgoal using mine by blast
    subgoal using opened by blast
    subgoal using fresh_read by blast
    subgoal using fresh_read by blast
    subgoal using fresh_open by blast
    subgoal by (rule nil)
    done
qed

theorem tip_written_under_l_read_under_1_witness:
  "CreateBlockchain demo_env NoFile ''A'' = Inr demo_bc0
   \<and> length (tip demo_bc0) = 32
   \<and> db demo_bc0 key_l = Some (tip demo_bc0)
   \<and> db demo_bc0 key_1 = None
   \<and> begin_err demo_env False (db demo_chain) = None
   \<and> begin_err demo_env True (db demo_chain) = None
   \<and> db demo_chain key_1 = Some (Hash demo_linked)
   \<and> MineBlock_lastHash demo_env \<lparr>tip = [], db = db demo_chain\<rparr> = (None, Hash demo_linked)
   \<and> tip (fst (MineBlock demo_env \<lparr>tip = [], db = db demo_chain\<rparr> [demo_cb ''M'' []]))
        = Hash (NewBlock demo_env (Hash demo_linked) [demo_cb ''M'' []])
   \<and> open_err demo_env = None
   \<and> commit_err demo_env (db demo_chain) (db demo_chain) = None
   \<and> NewBlockchain demo_env (File (Some (db demo_chain))) []
        = Inr (Some \<lparr>tip = Hash demo_linked, db = db demo_chain\<rparr>)
   \<and> begin_err demo_env False (db demo_bc0) = None
   \<and> MineBlock_lastHash demo_env demo_bc0 = (None, [])
   \<and> snd (MineBlock_lastHash demo_env demo_bc0) \<noteq> tip demo_bc0
   \<and> begin_err demo_env True (db demo_bc0) = None
   \<and> commit_err demo_env (db demo_bc0) (db demo_bc0) = None
   \<and> NewBlockchain demo_env (File (Some (db demo_bc0))) [] = Inr (Some \<lparr>tip = [], db = db demo_bc0\<rparr>)"
proof -
  let ?txs = "[demo_cb ''M'' []]"
  let ?nb = "NewBlock demo_env (Hash demo_linked) ?txs"
  let ?d = "db demo_chain"
  have d: "length (tip demo_bc0) = 32"
    by (simp add: demo_defs)
  have k: "?d key_1 = Some (Hash demo_linked)"
    by (simp add: demo_chain_def)
  have o: "open_err demo_env = None" "begin_err demo_env False ?d = None"
    "begin_err demo_env True ?d = None"
    "commit_err demo_env ?d ?d = None"
    "begin_err demo_env False (db demo_bc0) = None"
    "begin_err demo_env True (db demo_bc0) = None"
    "commit_err demo_env (db demo_bc0) (db demo_bc0) = None"
    by (simp_all add: demo_env_def)
  have s: "SerializeBlock demo_env ?nb = Inr (demo_ser ?nb)"
    "put_err demo_env ?d (Hash ?nb) (demo_ser ?nb) = None"
    "put_err demo_env (?d(Hash ?nb \<mapsto> demo_ser ?nb)) key_1 (Hash ?nb) = None"
    "commit_err demo_env ?d (?d(Hash ?nb \<mapsto> demo_ser ?nb, key_1 \<mapsto> Hash ?nb)) = None"
    by (simp_all add: demo_env_def)
  note t = tip_written_under_l_read_under_1 [OF demo_CreateBlockchain d,
        of ?d "Hash demo_linked" "[]" ?txs "demo_ser ?nb" "[]"]
  note t1 = t [THEN conjunct1]
  note t2 = t [THEN conjunct2, THEN conjunct1]
  note t3 = t [THEN conjunct2, THEN conjunct2, THEN conjunct1]
  note t4 = t [THEN conjunct2, THEN conjunct2, THEN conjunct2, THEN conjunct1]
  note t5 = t [THEN conjunct2, THEN conjunct2, THEN conjunct2, THEN conjunct2, THEN conjunct1]
  note t6 = t [THEN conjunct2, THEN conjunct2, THEN conjunct2, THEN conjunct2, THEN conjunct2,
      THEN conjunct1]
  note t7 = t [THEN conjunct2, THEN conjunct2, THEN conjunct2, THEN conjunct2, THEN conjunct2,
      THEN conjunct2, THEN conjunct1]
  note t8 = t [THEN conjunct2, THEN conjunct2, THEN conjunct2, THEN conjunct2, THEN conjunct2,
      THEN conjunct2, THEN conjunct2]
  have r4: "MineBlock_lastHash demo_env \<lparr>tip = [], db = ?d\<rparr> = (None, Hash demo_linked)"
    using t4 o(2) k by blast
  have r5: "tip (fst (MineBlock demo_env \<lparr>tip = [], db = ?d\<rparr> ?txs)) = Hash ?nb"
    using t5 k o(2) o(3) s by simp
  have r6: "NewBlockchain demo_env (File (Some ?d)) []
        = Inr (Some \<lparr>tip = Hash demo_linked, db = ?d\<rparr>)"
    using t6 o(1) o(3) o(4) k by blast
  have r7: "MineBlock_lastHash demo_env demo_bc0 = (None, [])
      \<and> snd (MineBlock_lastHash demo_env demo_bc0) \<noteq> tip demo_bc0"
    using t7 o(5) by blast
  have r8: "NewBlockchain demo_env (File (Some (db demo_bc0))) []
      = Inr (Some \<lparr>tip = [], db = db demo_bc0\<rparr>)"
    using t8 o(1) o(6) o(7) by blast
  have n: "[] \<noteq> tip demo_bc0"
    using d by auto
  show ?thesis
    using demo_CreateBlockchain d t2 t3 k o r4 r5 r6 r7 r8 n by (intro conjI) simp_all
qed

section \<open>MineBlock\<close>

lemma demo_MineBlock_fresh: "fst (MineBlock demo_env demo_bc0 demo_txs) = demo_bc1"
  by (simp add: MineBlock_def MineBlock_lastHash_def MineBlock_update_def View_def Update_def
      Put_def Get_def demo_defs Let_def key_1_def key_l_def)

text \<open>
  C2, as the code has it. MineBlock returns nothing. When the pointer stored under the key
  \<open>"1"\<close> is \<open>bc.tip\<close>, its two transactions begin, and the serialization, both puts
  and the commit succeed, it builds a new block with \<open>bc.tip\<close> as previous hash, stores
  the serialized block under the block's hash, and sets the pointer under \<open>"1"\<close> and
  \<open>bc.tip\<close> to that hash, printing nothing. (NewBlock is outside src/: it is taken to
  put its first argument into PrevBlockHash and to make a hash of 32 bytes.)
\<close>

theorem MineBlock_appends_when_store_succeeds:
  assumes sync: "db bc key_1 = Some (tip bc)"
      and view: "begin_err e False (db bc) = None"
      and rw: "begin_err e True (db bc) = None"
      and nb: "nb = MineBlock_newBlock e bc transactions"
      and link: "\<forall>p. PrevBlockHash (NewBlock e p transactions) = p"
      and digest: "length (Hash nb) = 32"
      and ser: "SerializeBlock e nb = Inr ser"
      and put1: "put_err e (db bc) (Hash nb) ser = None"
      and put2: "put_err e ((db bc)(Hash nb \<mapsto> ser)) key_1 (Hash nb) = None"
      and commit: "commit_err e (db bc) ((db bc)(Hash nb \<mapsto> ser, key_1 \<mapsto> Hash nb)) = None"
  shows "PrevBlockHash nb = tip bc
       \<and> MineBlock e bc transactions =
           (\<lparr>tip = Hash nb, db = (db bc)(Hash nb \<mapsto> ser, key_1 \<mapsto> Hash nb)\<rparr>, [])
       \<and> db (fst (MineBlock e bc transactions)) (Hash nb) = Some ser
       \<and> db (fst (MineBlock e bc transactions)) key_1 = Some (Hash nb)
       \<and> tip (fst (MineBlock e bc transactions)) = Hash nb"
proof -
  have last: "MineBlock_lastHash e bc = (None, Get (db bc) key_1)"
    using view by (rule MineBlock_lastHash_ok)
  have prev: "PrevBlockHash nb = tip bc"
    using link sync by (simp add: nb MineBlock_newBlock_def last Get_def)
  have upd: "MineBlock_update e nb (tip bc) (db bc) =
      (None, (db bc)(Hash nb \<mapsto> ser, key_1 \<mapsto> Hash nb), Hash nb, [])"
    by (simp add: MineBlock_update_def ser Put_def put1 put2)
  have run: "MineBlock e bc transactions =
      (\<lparr>tip = Hash nb, db = (db bc)(Hash nb \<mapsto> ser, key_1 \<mapsto> Hash nb)\<rparr>, [])"
    unfolding MineBlock_unfold nb [symmetric]
    by (simp add: Update_def rw upd commit last)
  have ne: "Hash nb \<noteq> key_1"
    using digest by (auto simp: key_1_def)
  show ?thesis
    using prev run ne by simp
qed

theorem MineBlock_appends_when_store_succeeds_witness:
  "db demo_chain key_1 = Some (tip demo_chain)
   \<and> begin_err demo_env False (db demo_chain) = None
   \<and> begin_err demo_env True (db demo_chain) = None
   \<and> (\<forall>p. PrevBlockHash (NewBlock demo_env p [demo_cb ''M'' []]) = p)
   \<and> length (Hash (MineBlock_newBlock demo_env demo_chain [demo_cb ''M'' []])) = 32
   \<and> SerializeBlock demo_env (MineBlock_newBlock demo_env demo_chain [demo_cb ''M'' []])
        = Inr (demo_ser (MineBlock_newBlock demo_env demo_chain [demo_cb ''M'' []]))
   \<and> PrevBlockHash (MineBlock_newBlock demo_env demo_chain [demo_cb ''M'' []]) = tip demo_chain
   \<and> tip (fst (MineBlock demo_env demo_chain [demo_cb ''M'' []]))
        = Hash (MineBlock_newBlock demo_env demo_chain [demo_cb ''M'' []])
   \<and> db (fst (MineBlock demo_env demo_chain [demo_cb ''M'' []]))
        (Hash (MineBlock_newBlock demo_env demo_chain [demo_cb ''M'' []]))
        = Some (demo_ser (MineBlock_newBlock demo_env demo_chain [demo_cb ''M'' []]))
   \<and> db (fst (MineBlock demo_env demo_chain [demo_cb ''M'' []])) key_1
        = Some (Hash (MineBlock_newBlock demo_env demo_chain [demo_cb ''M'' []]))"
proof -
  let ?txs = "[demo_cb ''M'' []]"
  let ?nb = "MineBlock_newBlock demo_env demo_chain ?txs"
  have h0: "db demo_chain key_1 = Some (tip demo_chain)"
    by (simp add: demo_chain_def)
  have h1: "begin_err demo_env False (db demo_chain) = None"
    by (simp add: demo_env_def)
  have h1': "begin_err demo_env True (db demo_chain) = None"
    by (simp add: demo_env_def)
  have h2: "\<forall>p. PrevBlockHash (NewBlock demo_env p ?txs) = p"
    by (simp add: demo_env_def demo_NewBlock_def)
  have h3: "SerializeBlock demo_env ?nb = Inr (demo_ser ?nb)"
    by (simp add: demo_env_def)
  have h4: "put_err demo_env (db demo_chain) (Hash ?nb) (demo_ser ?nb) = None"
    by (simp add: demo_env_def)
  have h5: "put_err demo_env ((db demo_chain)(Hash ?nb \<mapsto> demo_ser ?nb)) key_1 (Hash ?nb) = None"
    by (simp add: demo_env_def)
  have h6: "commit_err demo_env (db demo_chain)
      ((db demo_chain)(Hash ?nb \<mapsto> demo_ser ?nb, key_1 \<mapsto> Hash ?nb)) = None"
    by (simp add: demo_env_def)
  have h7: "length (Hash ?nb) = 32"
    by (simp add: MineBlock_newBlock_def demo_env_def demo_NewBlock_def)
  show ?thesis
    using h0 h1 h1' h2 h3 h7
      MineBlock_appends_when_store_succeeds [OF h0 h1 h1' refl h2 h7 h3 h4 h5 h6]
    by blast
qed

text \<open>
  C2 as stated fails. With a store that refuses the put of the key \<open>"1"\<close>, MineBlock
  returns all the same, and neither \<open>bc.tip\<close> nor the stored pointer is advanced to the
  new block's hash.
\<close>

theorem MineBlock_every_call_counterexample:
  "tip (fst (MineBlock demo_env_tip_put_fails demo_chain [demo_cb ''M'' []]))
       \<noteq> Hash (MineBlock_newBlock demo_env_tip_put_fails demo_chain [demo_cb ''M'' []])
   \<and> db (fst (MineBlock demo_env_tip_put_fails demo_chain [demo_cb ''M'' []])) key_1
       \<noteq> Some (Hash (MineBlock_newBlock demo_env_tip_put_fails demo_chain [demo_cb ''M'' []]))"
  by (simp add: MineBlock_def MineBlock_newBlock_def MineBlock_lastHash_def MineBlock_update_def
      View_def Update_def Put_def Get_def demo_defs Let_def key_1_def key_l_def)

text \<open>
  C4, as the code has it. MineBlock has no error result. When, in a call whose two
  transactions begin, the serialization of the new block, the put of the block or the put
  of the tip pointer fails, the callback of \<open>db.Update\<close> prints a message and returns
  nil, so that the failure reaches neither \<open>db.Update\<close> nor the caller of MineBlock;
  \<open>bc.tip\<close> is left as it was.
\<close>

theorem MineBlock_failure_is_not_returned:
  assumes view: "begin_err e False (db bc) = None"
      and rw: "begin_err e True (db bc) = None"
      and nb: "nb = MineBlock_newBlock e bc transactions"
      and failure: "(\<exists>err. SerializeBlock e nb = Inl err)
          \<or> (\<exists>ser. SerializeBlock e nb = Inr ser \<and> put_err e (db bc) (Hash nb) ser \<noteq> None)
          \<or> (\<exists>ser. SerializeBlock e nb = Inr ser \<and> put_err e (db bc) (Hash nb) ser = None
                \<and> put_err e ((db bc)(Hash nb \<mapsto> ser)) key_1 (Hash nb) \<noteq> None)"
  shows "fst (MineBlock_update e nb (tip bc) (db bc)) = None
       \<and> tip (fst (MineBlock e bc transactions)) = tip bc
       \<and> snd (MineBlock e bc transactions) \<in>
           {[''Error serializing new block''], [''Error updating bucket with new block''],
            [''Error serializing genesis block'']}"
proof -
  have last: "fst (MineBlock_lastHash e bc) = None"
    using view by (simp add: MineBlock_lastHash_ok)
  from failure obtain d' msg where
    upd: "MineBlock_update e nb (tip bc) (db bc) = (None, d', tip bc, [msg])"
    and msg: "msg \<in> {''Error serializing new block'', ''Error updating bucket with new block'',
            ''Error serializing genesis block''}"
    by (auto simp: MineBlock_update_def Put_def split: sum.splits option.splits)
  have run: "tip (fst (MineBlock e bc transactions)) = tip bc
      \<and> snd (MineBlock e bc transactions) = [msg]"
    unfolding MineBlock_unfold nb [symmetric]
    by (simp add: Update_def rw upd last split: option.splits)
  show ?thesis
    using upd run msg by auto
qed

theorem MineBlock_failure_is_not_returned_witness:
  "begin_err demo_env_tip_put_fails False (db demo_chain) = None
   \<and> begin_err demo_env_tip_put_fails True (db demo_chain) = None
   \<and> put_err demo_env_tip_put_fails
        ((db demo_chain)(Hash (MineBlock_newBlock demo_env_tip_put_fails demo_chain [demo_cb ''M'' []])
           \<mapsto> demo_ser (MineBlock_newBlock demo_env_tip_put_fails demo_chain [demo_cb ''M'' []])))
        key_1 (Hash (MineBlock_newBlock demo_env_tip_put_fails demo_chain [demo_cb ''M'' []])) \<noteq> None
   \<and> tip (fst (MineBlock demo_env_tip_put_fails demo_chain [demo_cb ''M'' []])) = tip demo_chain"
proof -
  let ?e = demo_env_tip_put_fails
  let ?txs = "[demo_cb ''M'' []]"
  let ?nb = "MineBlock_newBlock ?e demo_chain ?txs"
  have h1: "begin_err ?e False (db demo_chain) = None"
    by (simp add: demo_env_tip_put_fails_def demo_env_def)
  have h1': "begin_err ?e True (db demo_chain) = None"
    by (simp add: demo_env_tip_put_fails_def demo_env_def)
  have s: "SerializeBlock ?e ?nb = Inr (demo_ser ?nb)"
    by (simp add: demo_env_tip_put_fails_def demo_env_def)
  have len: "length (Hash ?nb) = 32"
    by (simp add: MineBlock_newBlock_def demo_env_tip_put_fails_def demo_env_def demo_NewBlock_def)
  then have ne: "Hash ?nb \<noteq> key_1"
    by (auto simp: key_1_def)
  have p1: "put_err ?e (db demo_chain) (Hash ?nb) (demo_ser ?nb) = None"
    using ne by (simp add: demo_env_tip_put_fails_def demo_env_def)
  have p2: "put_err ?e ((db demo_chain)(Hash ?nb \<mapsto> demo_ser ?nb)) key_1 (Hash ?nb) \<noteq> None"
    by (simp add: demo_env_tip_put_fails_def demo_env_def)
  have f: "(\<exists>err. SerializeBlock ?e ?nb = Inl err)
          \<or> (\<exists>ser. SerializeBlock ?e ?nb = Inr ser \<and> put_err ?e (db demo_chain) (Hash ?nb) ser \<noteq> None)
          \<or> (\<exists>ser. SerializeBlock ?e ?nb = Inr ser \<and> put_err ?e (db demo_chain) (Hash ?nb) ser = None
                \<and> put_err ?e ((db demo_chain)(Hash ?nb \<mapsto> ser)) key_1 (Hash ?nb) \<noteq> None)"
    using s p1 p2 by blast
  show ?thesis
    using h1 h1' p2 MineBlock_failure_is_not_returned [OF h1 h1' refl f] by blast
qed

text \<open>
  C4 as stated fails. The store refuses the put of the tip pointer; the callback of
  \<open>db.Update\<close> returns nil all the same, MineBlock prints a message and returns, and
  the transaction is committed: the new block is in the store, and the pointer under
  \<open>"1"\<close> is the old one.
\<close>

theorem MineBlock_failed_tip_put_counterexample:
  "put_err demo_env_tip_put_fails (db demo_chain) key_1 [] = Some (GoError ''put'')
   \<and> fst (MineBlock_update demo_env_tip_put_fails
            (MineBlock_newBlock demo_env_tip_put_fails demo_chain [demo_cb ''M'' []])
            (tip demo_chain) (db demo_chain)) = None
   \<and> snd (MineBlock demo_env_tip_put_fails demo_chain [demo_cb ''M'' []])
       = [''Error serializing genesis block'']
   \<and> db (fst (MineBlock demo_env_tip_put_fails demo_chain [demo_cb ''M'' []]))
        (Hash (MineBlock_newBlock demo_env_tip_put_fails demo_chain [demo_cb ''M'' []]))
       = Some (demo_ser (MineBlock_newBlock demo_env_tip_put_fails demo_chain [demo_cb ''M'' []]))
   \<and> db (fst (MineBlock demo_env_tip_put_fails demo_chain [demo_cb ''M'' []])) key_1
       = Some (tip demo_chain)"
  by (simp add: MineBlock_def MineBlock_newBlock_def MineBlock_lastHash_def MineBlock_update_def
      View_def Update_def Put_def Get_def demo_defs Let_def key_1_def key_l_def)

section \<open>Walking the chain\<close>

text \<open>
  C3 on the code: one MineBlock on the ledger CreateBlockchain has made (k = 1). The new
  block has an empty PrevBlockHash, since nothing is stored under \<open>"1"\<close>; the walk from
  the tip yields that block alone and never reaches the genesis block: one block, where
  the claim has two.
\<close>

theorem fresh_ledger_walk_misses_genesis:
  "CreateBlockchain demo_env NoFile ''A'' = Inr demo_bc0
   \<and> fst (MineBlock demo_env demo_bc0 demo_txs) = demo_bc1
   \<and> chain_blocks 5 demo_env (Iterator demo_bc1) = Some (Inr [demo_mined])
   \<and> PrevBlockHash demo_mined = []
   \<and> PrevBlockHash demo_mined \<noteq> Hash demo_genesis"
proof -
  have "chain_blocks 5 demo_env (Iterator demo_bc1) = Some (Inr [demo_mined])"
    by code_simp
  moreover have "PrevBlockHash demo_mined = []" "PrevBlockHash demo_mined \<noteq> Hash demo_genesis"
    by (simp_all add: demo_defs)
  ultimately show ?thesis
    using demo_CreateBlockchain demo_MineBlock_fresh by simp
qed

text \<open>
  C5 on the code: when the bytes stored under the current hash do not decode, Next prints
  a message, leaves \<open>block\<close> nil and dereferences it: the call ends in the run-time panic
  of a nil pointer dereference, not in an error value.
\<close>

theorem Next_dereferences_nil_on_decode_failure:
  assumes "DeserializeBlock e (Get (it_db i) (currentHash i)) = Inl err"
  shows "Next e i = Inl NilPointerDereference"
  using assms by (simp add: Next_def View_def Next_view_def split: option.splits)

theorem Next_dereferences_nil_on_decode_failure_witness:
  "NewBlockchain demo_env (File (Some (db demo_bc0))) [] = Inr (Some \<lparr>tip = [], db = db demo_bc0\<rparr>)
   \<and> DeserializeBlock demo_env (Get (it_db (Iterator \<lparr>tip = [], db = db demo_bc0\<rparr>))
        (currentHash (Iterator \<lparr>tip = [], db = db demo_bc0\<rparr>))) = Inl (GoError ''EOF'')
   \<and> Next demo_env (Iterator \<lparr>tip = [], db = db demo_bc0\<rparr>) = Inl NilPointerDereference"
proof -
  have n: "NewBlockchain demo_env (File (Some (db demo_bc0))) [] = Inr (Some \<lparr>tip = [], db = db demo_bc0\<rparr>)"
    by (simp add: NewBlockchain_def Update_def Get_def demo_defs key_1_def key_l_def)
  have d: "DeserializeBlock demo_env (Get (it_db (Iterator \<lparr>tip = [], db = db demo_bc0\<rparr>))
        (currentHash (Iterator \<lparr>tip = [], db = db demo_bc0\<rparr>))) = Inl (GoError ''EOF'')"
    by (simp add: Iterator_def Get_def demo_defs key_l_def)
  show ?thesis
    using n d Next_dereferences_nil_on_decode_failure [OF d] by blast
qed

section \<open>Unspent outputs\<close>

lemma Next_it_db: "Next e i = Inr (b, i') \<Longrightarrow> it_db i' = it_db i"
  by (auto simp: Next_def split: option.splits)

lemma loop_it_db:
  "FindUnspentTransactions_loop fuel e address bci st = Some (Inr (u, bci')) \<Longrightarrow> it_db bci' = it_db bci"
proof (induction fuel arbitrary: bci st)
  case 0
  then show ?case by simp
next
  case (Suc fuel)
  from Suc.prems obtain block bci1 where nx: "Next e bci = Inr (block, bci1)"
    by (auto split: sum.splits)
  have db1: "it_db bci1 = it_db bci"
    using nx by (rule Next_it_db)
  show ?case
  proof (cases "length (PrevBlockHash block) = 0")
    case True
    with Suc.prems nx have "bci' = bci1"
      by (simp add: Let_def)
    with db1 show ?thesis by simp
  next
    case False
    with Suc.prems nx have
      "FindUnspentTransactions_loop fuel e address bci1
         (scan_transactions e address (Transactions block) st) = Some (Inr (u, bci'))"
      by (simp add: Let_def)
    from Suc.IH [OF this] db1 show ?thesis by simp
  qed
qed

lemma FindUnspentTransactions_bc:
  assumes "FindUnspentTransactions fuel e bc address = Some (Inr (txs, bc'))"
  shows "bc' = bc"
proof -
  from assms obtain bci where
    l: "FindUnspentTransactions_loop fuel e address (Iterator bc) ([], Map.empty) = Some (Inr (txs, bci))"
    and b: "bc' = bc\<lparr>db := it_db bci\<rparr>"
    by (auto simp: FindUnspentTransactions_def split: option.splits sum.splits)
  from loop_it_db [OF l] have "it_db bci = db bc"
    by (simp add: Iterator_def)
  with b show ?thesis by simp
qed

lemma demo_unspent:
  "map_option (map_sum id fst) (FindUnspentTransactions 5 demo_env demo_chain ''A'')
     = Some (Inr [demo_tx1, demo_tx1])"
  by code_simp

lemma demo_FindUnspentTransactions:
  "FindUnspentTransactions 5 demo_env demo_chain ''A'' = Some (Inr ([demo_tx1, demo_tx1], demo_chain))"
proof -
  from demo_unspent obtain bc' where
    u: "FindUnspentTransactions 5 demo_env demo_chain ''A'' = Some (Inr ([demo_tx1, demo_tx1], bc'))"
    by (cases "FindUnspentTransactions 5 demo_env demo_chain ''A''")
      (auto simp: map_sum_def split: sum.splits)
  with FindUnspentTransactions_bc [OF u] show ?thesis by simp
qed

lemma demo_FindUTXO:
  "FindUTXO 5 demo_env demo_chain ''A''
     = Some (Inr ([\<lparr>Value = 4, ScriptPubKey = ''A''\<rparr>, \<lparr>Value = 6, ScriptPubKey = ''A''\<rparr>,
                   \<lparr>Value = 4, ScriptPubKey = ''A''\<rparr>, \<lparr>Value = 6, ScriptPubKey = ''A''\<rparr>],
                  demo_chain))"
proof -
  have "concat (map (unlockable_outputs demo_env ''A'') [demo_tx1, demo_tx1])
      = [\<lparr>Value = 4, ScriptPubKey = ''A''\<rparr>, \<lparr>Value = 6, ScriptPubKey = ''A''\<rparr>,
         \<lparr>Value = 4, ScriptPubKey = ''A''\<rparr>, \<lparr>Value = 6, ScriptPubKey = ''A''\<rparr>]"
    by (simp add: unlockable_outputs_def demo_tx1_def demo_env_def)
  then show ?thesis
    by (simp add: FindUTXO_def demo_FindUnspentTransactions)
qed

lemma loop_more_fuel:
  "FindUnspentTransactions_loop fuel e a bci st = Some r \<Longrightarrow>
     FindUnspentTransactions_loop (fuel + k) e a bci st = Some r"
proof (induction fuel arbitrary: bci st)
  case 0
  then show ?case by simp
next
  case (Suc fuel)
  show ?case
  proof (cases "Next e bci")
    case (Inl x)
    with Suc.prems show ?thesis by simp
  next
    case (Inr p)
    obtain block bci1 where p: "p = (block, bci1)" by (cases p)
    show ?thesis
    proof (cases "length (PrevBlockHash block) = 0")
      case True
      with Suc.prems Inr p show ?thesis by (simp add: Let_def)
    next
      case False
      with Suc.prems Inr p have
        "FindUnspentTransactions_loop fuel e a bci1
           (scan_transactions e a (Transactions block) st) = Some r"
        by (simp add: Let_def)
      from Suc.IH [OF this] Inr p False show ?thesis
        by (simp add: Let_def)
    qed
  qed
qed

lemma FindUnspentTransactions_more_fuel:
  "FindUnspentTransactions fuel e bc a = Some r \<Longrightarrow>
     FindUnspentTransactions (fuel + k) e bc a = Some r"
  by (auto simp: FindUnspentTransactions_def split: option.splits sum.splits
      dest: loop_more_fuel [where k = k])

lemma FindUTXO_more_fuel:
  "FindUTXO fuel e bc a = Some r \<Longrightarrow> FindUTXO (fuel + k) e bc a = Some r"
  by (auto simp: FindUTXO_def split: option.splits sum.splits
      dest: FindUnspentTransactions_more_fuel [where k = k])

text \<open>
  C8. FindUnspentTransactions and FindUTXO hand the blockchain object back as they got it,
  tip and store, so that a second call with the same address, on what the first call
  left, returns the same result, however many more iterations it is allowed.
\<close>

theorem UTXO_queries_leave_ledger_unchanged:
  "(FindUnspentTransactions fuel e bc address = Some (Inr (txs, bc'))
      \<longrightarrow> bc' = bc
        \<and> (\<forall>k. FindUnspentTransactions (fuel + k) e bc' address = Some (Inr (txs, bc'))))
   \<and> (FindUTXO fuel e bc address = Some (Inr (outs, bc''))
      \<longrightarrow> bc'' = bc
        \<and> (\<forall>k. FindUTXO (fuel + k) e bc'' address = Some (Inr (outs, bc''))))"
proof -
  have "bc'' = bc" if "FindUTXO fuel e bc address = Some (Inr (outs, bc''))"
    using that
    by (auto simp: FindUTXO_def split: option.splits sum.splits dest: FindUnspentTransactions_bc)
  then show ?thesis
    by (auto dest: FindUnspentTransactions_bc FindUnspentTransactions_more_fuel FindUTXO_more_fuel)
qed

theorem UTXO_queries_leave_ledger_unchanged_witness:
  "FindUnspentTransactions 5 demo_env demo_chain ''A'' = Some (Inr ([demo_tx1, demo_tx1], demo_chain))
   \<and> FindUnspentTransactions (5 + 1) demo_env demo_chain ''A''
       = Some (Inr ([demo_tx1, demo_tx1], demo_chain))
   \<and> FindUTXO 5 demo_env demo_chain ''A''
       = Some (Inr ([\<lparr>Value = 4, ScriptPubKey = ''A''\<rparr>, \<lparr>Value = 6, ScriptPubKey = ''A''\<rparr>,
                     \<lparr>Value = 4, ScriptPubKey = ''A''\<rparr>, \<lparr>Value = 6, ScriptPubKey = ''A''\<rparr>],
                    demo_chain))"
  using demo_FindUnspentTransactions demo_FindUTXO
    UTXO_queries_leave_ledger_unchanged [of 5 demo_env demo_chain "''A''" "[demo_tx1, demo_tx1]"
      demo_chain _ demo_chain]
  by blast

text \<open>
  C9 on the code: the address A holds two unspent outputs, of 4 and 6, both in one
  transaction. Asked for 12, FindSpendableOutputs returns 14 with the output indices
  0, 1, 0: the transaction is in the list of FindUnspentTransactions twice, so the first
  output is taken a second time, where the outputs are exhausted at 10.
\<close>

theorem FindSpendableOutputs_selects_output_twice:
  "map_option (map_sum id (\<lambda>((accumulated, unspentOutputs), bc).
       (accumulated, unspentOutputs (EncodeToString (ID demo_tx1)))))
     (FindSpendableOutputs 5 demo_env demo_chain ''A'' 12) = Some (Inr (14, Some [0, 1, 0]))
   \<and> map Value (Vout demo_tx1) = [4, 6]"
proof -
  have "map_option (map_sum id (\<lambda>((accumulated, unspentOutputs), bc).
       (accumulated, unspentOutputs (EncodeToString (ID demo_tx1)))))
     (FindSpendableOutputs 5 demo_env demo_chain ''A'' 12) = Some (Inr (14, Some [0, 1, 0]))"
    by code_simp
  then show ?thesis by (simp add: demo_tx1_def)
qed

section \<open>One entry for each unspent output\<close>

lemma scan_outputs_replicate:
  "scan_outputs e a tx sp txID (int n) outs u =
     u @ replicate (length (filter (\<lambda>(i, out). \<not> was_spent sp txID (int i)
                                      \<and> CanBeUnlockedWith e out a) (enumerate n outs))) tx"
proof (induction outs arbitrary: n u)
  case Nil
  then show ?case by simp
next
  case (Cons out outs)
  have step: "int n + 1 = int (Suc n)" by simp
  show ?case
    by (simp only: scan_outputs.simps step Cons.IH)
       (simp add: replicate_app_Cons_same)
qed

lemma scan_tx_fst:
  "fst (scan_tx e a tx st) = fst st @ replicate (length (unspent_outputs e a (snd st) tx)) tx"
  using scan_outputs_replicate [of e a tx "snd st" "EncodeToString (ID tx)" 0 "Vout tx" "fst st"]
  by (simp add: scan_tx_def unspent_outputs_def Let_def)

lemma scan_tx_snd: "snd (scan_tx e a tx (u, sp)) = snd (scan_tx e a tx (u', sp))"
  by (simp add: scan_tx_def Let_def)

lemma scan_transactions_append:
  "scan_transactions e a (xs @ ys) st = scan_transactions e a ys (scan_transactions e a xs st)"
  by (induction xs arbitrary: st) simp_all

lemma scan_transactions_extends:
  "\<exists>us. fst (scan_transactions e a txs st) = fst st @ us"
proof (induction txs arbitrary: st)
  case Nil
  then show ?case by simp
next
  case (Cons tx txs)
  from Cons.IH [of "scan_tx e a tx st"] obtain us where
    "fst (scan_transactions e a txs (scan_tx e a tx st)) = fst (scan_tx e a tx st) @ us"
    by blast
  then show ?case
    by (simp add: scan_tx_fst)
qed

lemma walk_gives_run:
  "chain_blocks fuel e bci = Some (Inr blocks) \<Longrightarrow>
     \<exists>bci'. FindUnspentTransactions_loop fuel e a bci st =
        Some (Inr (fst (scan_transactions e a (concat (map Transactions blocks)) st), bci'))"
proof (induction fuel arbitrary: bci st blocks)
  case 0
  then show ?case by simp
next
  case (Suc fuel)
  from Suc.prems obtain block bci1 where nx: "Next e bci = Inr (block, bci1)"
    by (auto split: sum.splits)
  show ?case
  proof (cases "length (PrevBlockHash block) = 0")
    case True
    with Suc.prems nx show ?thesis
      by (auto simp: Let_def)
  next
    case False
    with Suc.prems nx obtain rest where
      rest: "chain_blocks fuel e bci1 = Some (Inr rest)" and blocks: "blocks = block # rest"
      by (auto split: option.splits sum.splits)
    from Suc.IH [OF rest, of "scan_transactions e a (Transactions block) st"] nx False
    show ?thesis
      by (simp add: blocks scan_transactions_append Let_def)
  qed
qed

lemma count_list_concat_replicate:
  "count_list (concat (replicate n xs)) x = n * count_list xs x"
  by (induction n) simp_all

lemma count_list_replicate_same: "count_list (replicate n x) x = n"
  by (induction n) simp_all

text \<open>
  C10. Let the walk from the tip come to a transaction that holds n outputs which the scan
  counts as unspent and unlockable by the address, with n at least 2. Then
  FindUnspentTransactions returns, and its result holds the transaction n times in a row,
  once for each such output; FindUTXO returns as well, the transaction has an output the
  address unlocks, and every output of the transaction that the address unlocks is in the
  result of FindUTXO at least n times, and so more than once.
\<close>

theorem unspent_transaction_repeated_per_output:
  assumes walk: "chain_blocks fuel e (Iterator bc) = Some (Inr blocks)"
      and pos: "concat (map Transactions blocks) = pre @ tx # post"
      and n: "n = length (unspent_outputs e address
                    (snd (scan_transactions e address pre ([], Map.empty))) tx)"
      and two: "2 \<le> n"
  shows "\<exists>us utxos.
           FindUnspentTransactions fuel e bc address =
             Some (Inr (fst (scan_transactions e address pre ([], Map.empty)) @ replicate n tx @ us, bc))
         \<and> n \<le> count_list
                  (fst (scan_transactions e address pre ([], Map.empty)) @ replicate n tx @ us) tx
         \<and> FindUTXO fuel e bc address = Some (Inr (utxos, bc))
         \<and> (\<exists>out \<in> set (Vout tx). CanBeUnlockedWith e out address)
         \<and> (\<forall>out \<in> set (Vout tx). CanBeUnlockedWith e out address \<longrightarrow>
               2 \<le> count_list utxos out \<and> n \<le> count_list utxos out)"
proof -
  let ?st0 = "([], Map.empty) :: Transaction list \<times> index_map"
  let ?s1 = "scan_transactions e address pre ?st0"
  let ?all = "fst (scan_transactions e address (concat (map Transactions blocks)) ?st0)"
  from walk_gives_run [OF walk, of address ?st0] obtain bci where
    l: "FindUnspentTransactions_loop fuel e address (Iterator bc) ?st0 = Some (Inr (?all, bci))"
    by blast
  then have "\<exists>bc'. FindUnspentTransactions fuel e bc address = Some (Inr (?all, bc'))"
    by (simp add: FindUnspentTransactions_def)
  then have run: "FindUnspentTransactions fuel e bc address = Some (Inr (?all, bc))"
    using FindUnspentTransactions_bc by blast
  have "scan_transactions e address (pre @ tx # post) ?st0
      = scan_transactions e address post (scan_tx e address tx ?s1)"
    by (simp add: scan_transactions_append)
  moreover from scan_transactions_extends [of e address post "scan_tx e address tx ?s1"]
  obtain us where
    "fst (scan_transactions e address post (scan_tx e address tx ?s1))
       = fst (scan_tx e address tx ?s1) @ us"
    by blast
  ultimately have shape: "?all = fst ?s1 @ replicate n tx @ us"
    using pos n by (simp add: scan_tx_fst)
  have cnt: "n \<le> count_list (fst ?s1 @ replicate n tx @ us) tx"
    by (simp add: count_list_replicate_same)
  let ?utxos = "concat (map (unlockable_outputs e address) ?all)"
  have utxo: "FindUTXO fuel e bc address = Some (Inr (?utxos, bc))"
    using run by (simp add: FindUTXO_def)
  have dup: "n \<le> count_list ?utxos out"
    if "out \<in> set (Vout tx)" "CanBeUnlockedWith e out address" for out
  proof -
    from that have "out \<in> set (unlockable_outputs e address tx)"
      by (simp add: unlockable_outputs_def)
    then have "1 \<le> count_list (unlockable_outputs e address tx) out"
      by (metis One_nat_def Suc_leI count_list_0_iff neq0_conv)
    then have "n \<le> n * count_list (unlockable_outputs e address tx) out"
      by simp
    moreover have "n * count_list (unlockable_outputs e address tx) out \<le> count_list ?utxos out"
      by (simp add: shape map_replicate count_list_concat_replicate)
    ultimately show ?thesis by (rule order_trans)
  qed
  have "unspent_outputs e address (snd ?s1) tx \<noteq> []"
    using n two by auto
  then obtain i out where
    "(i, out) \<in> set (enumerate 0 (Vout tx))" "CanBeUnlockedWith e out address"
    by (fastforce simp: unspent_outputs_def filter_empty_conv)
  then have some: "\<exists>out \<in> set (Vout tx). CanBeUnlockedWith e out address"
    by (auto simp: in_set_enumerate_eq)
  from run shape have run': "FindUnspentTransactions fuel e bc address =
      Some (Inr (fst ?s1 @ replicate n tx @ us, bc))"
    by simp
  have dup2: "\<forall>out \<in> set (Vout tx). CanBeUnlockedWith e out address \<longrightarrow>
      2 \<le> count_list ?utxos out \<and> n \<le> count_list ?utxos out"
    using dup two by (meson order_trans)
  show ?thesis
    using run' cnt utxo some dup2 by blast
qed

theorem unspent_transaction_repeated_per_output_witness:
  "chain_blocks 5 demo_env (Iterator demo_chain) = Some (Inr [demo_linked, demo_genesis])
   \<and> concat (map Transactions [demo_linked, demo_genesis])
        = [] @ demo_tx1 # [demo_cb ''M'' [], demo_cb ''A'' genesisCoinbaseData]
   \<and> length (unspent_outputs demo_env ''A''
         (snd (scan_transactions demo_env ''A'' [] ([], Map.empty))) demo_tx1) = 2
   \<and> (\<exists>us utxos.
         FindUnspentTransactions 5 demo_env demo_chain ''A'' =
           Some (Inr (fst (scan_transactions demo_env ''A'' [] ([], Map.empty))
                        @ replicate 2 demo_tx1 @ us, demo_chain))
         \<and> FindUTXO 5 demo_env demo_chain ''A'' = Some (Inr (utxos, demo_chain))
         \<and> (\<exists>out \<in> set (Vout demo_tx1). CanBeUnlockedWith demo_env out ''A'')
         \<and> (\<forall>out \<in> set (Vout demo_tx1). CanBeUnlockedWith demo_env out ''A'' \<longrightarrow>
               2 \<le> count_list utxos out))"
proof -
  have h2: "chain_blocks 5 demo_env (Iterator demo_chain) = Some (Inr [demo_linked, demo_genesis])"
    by code_simp
  have h3: "concat (map Transactions [demo_linked, demo_genesis])
        = [] @ demo_tx1 # [demo_cb ''M'' [], demo_cb ''A'' genesisCoinbaseData]"
    by (simp add: demo_linked_def demo_genesis_def demo_NewBlock_def demo_txs_def)
  have h4: "2 = length (unspent_outputs demo_env ''A''
         (snd (scan_transactions demo_env ''A'' [] ([], Map.empty))) demo_tx1)"
    by (simp add: unspent_outputs_def was_spent_def demo_tx1_def demo_env_def)
  have h5: "(2::nat) \<le> 2"
    by simp
  show ?thesis
    using h2 h3 h4 [symmetric]
      unspent_transaction_repeated_per_output [OF h2 h3 h4 h5]
    by blast
qed

section \<open>The mempool after mining\<close>




















end
